theory Spec2Isabelle
  imports Main
begin

section \<open>The cartoonify-image edge function\<close>

subsection \<open>JavaScript values met by the handler\<close>

text \<open>
  A thrown value is either an \<open>Error\<close> instance carrying its message, or something else;
  the handler's \<open>catch\<close> distinguishes the two with \<open>instanceof Error\<close>.
\<close>

datatype thrown = ErrorObj string | OtherThrown

text \<open>
  The result of reading a property of the \<open>stylePrompts\<close> object literal: a string own
  property, a function inherited from \<open>Object.prototype\<close>, or \<open>undefined\<close>.
\<close>

datatype js_value = Undefined | JStr string | JFun string

fun truthy :: "js_value \<Rightarrow> bool" where
  "truthy Undefined = False"
| "truthy (JStr s) = (s \<noteq> [])"
| "truthy (JFun f) = True"

definition js_or :: "js_value \<Rightarrow> js_value \<Rightarrow> js_value" where
  "js_or a b = (if truthy a then a else b)"

text \<open>
  An optional string under a truthiness test: \<open>undefined\<close> and the empty string are
  falsy (\<open>None\<close>); a truthy string is handed on.
\<close>

fun truthy_str :: "string option \<Rightarrow> string option" where
  "truthy_str None = None"
| "truthy_str (Some s) = (if s = [] then None else Some s)"

text \<open>
  The function-valued properties every object literal inherits from \<open>Object.prototype\<close>
  in the Deno runtime (which removes \<open>__proto__\<close>).
\<close>

definition object_prototype :: "string list" where
  "object_prototype =
    [''constructor'', ''hasOwnProperty'', ''isPrototypeOf'', ''propertyIsEnumerable'',
     ''toLocaleString'', ''toString'', ''valueOf'',
     ''__defineGetter__'', ''__defineSetter__'', ''__lookupGetter__'', ''__lookupSetter__'']"

text \<open>\<open>obj[k]\<close> on an object literal: own properties first, then the prototype.\<close>

definition get_prop :: "(string \<times> string) list \<Rightarrow> string \<Rightarrow> js_value" where
  "get_prop obj k =
    (case map_of obj k of
       Some v \<Rightarrow> JStr v
     | None \<Rightarrow> if k \<in> set object_prototype then JFun k else Undefined)"

subsection \<open>The style registry\<close>

definition prompt_vibrant :: string where
  "prompt_vibrant =
    ''Transform this image into a vibrant cartoon style. Apply bold outlines, saturated colors, simplified shapes, and a playful artistic interpretation. Make it look like a hand-drawn animation or comic book illustration with enhanced colors and clear, defined edges.''"

definition prompt_anime :: string where
  "prompt_anime =
    ''Transform this image into a beautiful anime/manga style. Use large expressive eyes, clean linework, soft shading, vibrant hair colors, and the characteristic Japanese animation aesthetic. Add cel-shaded lighting and smooth gradients typical of anime art.''"

definition prompt_comic :: string where
  "prompt_comic =
    ''Transform this image into a dynamic comic book style. Use bold black outlines, Ben-Day dots, halftone patterns, dramatic lighting with high contrast, and vibrant primary colors. Make it look like it's from a vintage superhero comic with action-packed energy.''"

definition prompt_watercolor :: string where
  "prompt_watercolor =
    ''Transform this image into a soft watercolor painting style. Use gentle brushstrokes, pastel colors that blend smoothly, transparent washes, organic edges, and the fluid, dreamy quality of watercolor art. Create a delicate, artistic interpretation.''"

definition prompt_sketch :: string where
  "prompt_sketch =
    ''Transform this image into a hand-drawn pencil sketch style. Use cross-hatching, varied line weights, shading with graphite-like strokes, and the organic, imperfect quality of pencil artwork. Make it look like a detailed artist's sketch with visible drawing marks.''"

definition prompt_pixar :: string where
  "prompt_pixar =
    ''Transform this image into a Pixar-style 3D animated movie look. Use soft rounded shapes, glossy surfaces, cinematic lighting with rim lights, warm color palettes, expressive character features, and the polished CGI quality of modern animated films like Toy Story or Finding Nemo.''"

definition prompt_retro :: string where
  "prompt_retro =
    ''Transform this image into a retro 1950s cartoon style. Use limited color palettes, simple bold shapes, vintage comic aesthetics, grainy texture, flat colors with minimal shading, and the nostalgic look of classic Hanna-Barbera or early Disney cartoons.''"

definition prompt_noir :: string where
  "prompt_noir =
    ''Transform this image into a dramatic film noir style. Use high contrast black and white, deep shadows, dramatic lighting, sharp angles, moody atmosphere, and the classic detective movie aesthetic. Create strong chiaroscuro effects with bold darks and highlights.''"

definition prompt_popart :: string where
  "prompt_popart =
    ''Transform this image into Andy Warhol-style pop art. Use bright neon colors, high contrast, repeated patterns, Ben-Day dots, bold flat colors, screen-print effects, and the iconic 1960s pop art aesthetic. Make it bold, graphic, and eye-catching.''"

definition prompt_oil :: string where
  "prompt_oil =
    ''Transform this image into a classical oil painting style. Use rich textures, visible brushstrokes, deep colors with subtle color mixing, impasto techniques, Renaissance or Impressionist aesthetics, and the timeless quality of traditional fine art oil paintings.''"

definition prompt_fantasy :: string where
  "prompt_fantasy =
    ''Transform this image into an epic fantasy art style. Use magical lighting effects, mystical color palettes with purples and blues, ethereal glows, dramatic atmosphere, otherworldly beauty, and the enchanting quality of fantasy book covers or concept art.''"

definition prompt_minimalist :: string where
  "prompt_minimalist =
    ''Transform this image into a minimalist art style. Use simple clean lines, limited color palette (2-4 colors max), geometric shapes, negative space, flat design, modern aesthetic, and the elegant simplicity of Scandinavian or Japanese minimalism.''"

definition stylePrompts :: "(string \<times> string) list" where
  "stylePrompts =
    [(''vibrant'', prompt_vibrant),
     (''anime'', prompt_anime),
     (''comic'', prompt_comic),
     (''watercolor'', prompt_watercolor),
     (''sketch'', prompt_sketch),
     (''pixar'', prompt_pixar),
     (''retro'', prompt_retro),
     (''noir'', prompt_noir),
     (''popart'', prompt_popart),
     (''oil'', prompt_oil),
     (''fantasy'', prompt_fantasy),
     (''minimalist'', prompt_minimalist)]"

text \<open>\<open>stylePrompts[style] || stylePrompts.vibrant\<close>\<close>

definition promptText :: "string \<Rightarrow> js_value" where
  "promptText style = js_or (get_prop stylePrompts style) (get_prop stylePrompts ''vibrant'')"

text \<open>The \<open>CartoonStyle\<close> union of the style selector.\<close>

datatype CartoonStyle =
    Vibrant | Anime | Comic | Watercolor | Sketch | Pixar
  | Retro | Noir | Popart | Oil | Fantasy | Minimalist

fun style_tag :: "CartoonStyle \<Rightarrow> string" where
  "style_tag Vibrant = ''vibrant''"
| "style_tag Anime = ''anime''"
| "style_tag Comic = ''comic''"
| "style_tag Watercolor = ''watercolor''"
| "style_tag Sketch = ''sketch''"
| "style_tag Pixar = ''pixar''"
| "style_tag Retro = ''retro''"
| "style_tag Noir = ''noir''"
| "style_tag Popart = ''popart''"
| "style_tag Oil = ''oil''"
| "style_tag Fantasy = ''fantasy''"
| "style_tag Minimalist = ''minimalist''"

subsection \<open>Requests, responses and the upstream model\<close>

text \<open>
  The body of the request as the handler destructures it:
  \<open>const { image, style = "vibrant" } = await req.json()\<close>. A field that is absent is
  \<open>None\<close>. The statement can throw, which is \<open>Inl\<close>: \<open>req.json()\<close> rejects on an empty
  or malformed body, and the destructuring throws when the body is the JSON value
  \<open>null\<close>.
\<close>

record req_body =
  req_image :: "string option"
  req_style :: "string option"

record request =
  req_method :: string
  req_json :: "thrown + req_body"

text \<open>\<open>Deno.env.get("LOVABLE_API_KEY")\<close>\<close>

record env =
  LOVABLE_API_KEY :: "string option"

record response =
  status :: nat
  body :: "(string \<times> string) list option"
  headers :: "(string \<times> string) list"

definition corsHeaders :: "(string \<times> string) list" where
  "corsHeaders =
    [(''Access-Control-Allow-Origin'', ''*''),
     (''Access-Control-Allow-Headers'', ''authorization, x-client-info, apikey, content-type'')]"

definition json_headers :: "(string \<times> string) list" where
  "json_headers = corsHeaders @ [(''Content-Type'', ''application/json'')]"

text \<open>\<open>new Response(JSON.stringify({ error: msg }), { status: st, headers: ... })\<close>\<close>

definition error_response :: "nat \<Rightarrow> string \<Rightarrow> response" where
  "error_response st msg = \<lparr>status = st, body = Some [(''error'', msg)], headers = json_headers\<rparr>"

text \<open>The success response; a \<open>Response\<close> built without a status has status 200.\<close>

definition cartoon_response :: "string \<Rightarrow> response" where
  "cartoon_response u = \<lparr>status = 200, body = Some [(''cartoon_image'', u)], headers = json_headers\<rparr>"

definition preflight_response :: response where
  "preflight_response = \<lparr>status = 200, body = None, headers = corsHeaders\<rparr>"

text \<open>The one call the handler makes to the gateway.\<close>

record fetch_request =
  fetch_url :: string
  fetch_method :: string
  fetch_authorization :: string
  fetch_model :: string
  fetch_text :: js_value
  fetch_image_url :: string
  fetch_modalities :: "string list"

text \<open>
  The parsed completion, with one level of optionality for each \<open>?.\<close> of
  \<open>data.choices?.[0]?.message?.images?.[0]?.image_url?.url\<close>.
\<close>

record image_url_t =
  url :: "string option"

record image_t =
  image_url :: "image_url_t option"

record message_t =
  images :: "image_t list option"

record choice_t =
  message :: "message_t option"

record completion_t =
  choices :: "choice_t list option"

text \<open>
  What the handler reads of the gateway's response: the status, the body as text (read on
  the failure path) and the body as JSON (read on the success path). Either read can
  throw, which is \<open>Inl\<close>; on the success path that is \<open>response.json()\<close> rejecting or
  \<open>data.choices\<close> throwing because the body is the JSON value \<open>null\<close>.
\<close>

record upstream_response =
  up_status :: nat
  up_text :: "thrown + string"
  up_json :: "thrown + completion_t"

text \<open>\<open>response.ok\<close>: a status in the range 200 to 299.\<close>

definition up_ok :: "upstream_response \<Rightarrow> bool" where
  "up_ok r = (200 \<le> up_status r \<and> up_status r \<le> 299)"

text \<open>\<open>xs?.[0]\<close> on an optional array.\<close>

fun first_opt :: "'a list option \<Rightarrow> 'a option" where
  "first_opt None = None"
| "first_opt (Some []) = None"
| "first_opt (Some (x # xs)) = Some x"

definition extract_image :: "completion_t \<Rightarrow> string option" where
  "extract_image data =
    Option.bind (first_opt (choices data)) (\<lambda>c.
    Option.bind (message c) (\<lambda>m.
    Option.bind (first_opt (images m)) (\<lambda>i.
    Option.bind (image_url i) url)))"

text \<open>The decimal rendering of a status inside a template literal.\<close>

fun string_of_nat :: "nat \<Rightarrow> string" where
  "string_of_nat n =
    (if n < 10 then [char_of (48 + n)]
     else string_of_nat (n div 10) @ [char_of (48 + n mod 10)])"

declare string_of_nat.simps [simp del]

text \<open>\<open>error instanceof Error ? error.message : "Failed to cartoonify image"\<close>\<close>

fun catch_response :: "thrown \<Rightarrow> response" where
  "catch_response (ErrorObj msg) = error_response 500 msg"
| "catch_response OtherThrown = error_response 500 ''Failed to cartoonify image''"

subsection \<open>The handler\<close>

definition upstream_request :: "string \<Rightarrow> string \<Rightarrow> string option \<Rightarrow> fetch_request" where
  "upstream_request key img sty =
    \<lparr>fetch_url = ''https://ai.gateway.lovable.dev/v1/chat/completions'',
     fetch_method = ''POST'',
     fetch_authorization = ''Bearer '' @ key,
     fetch_model = ''google/gemini-2.5-flash-image-preview'',
     fetch_text = promptText (case sty of None \<Rightarrow> ''vibrant'' | Some s \<Rightarrow> s),
     fetch_image_url = img,
     fetch_modalities = [''image'', ''text'']\<rparr>"

text \<open>What the handler does with the gateway's response (from \<open>if (!response.ok)\<close> on).\<close>

definition relay :: "upstream_response \<Rightarrow> response" where
  "relay r =
    (if \<not> up_ok r then
       (case up_text r of
          Inl ex \<Rightarrow> catch_response ex
        | Inr errorText \<Rightarrow>
            if up_status r = 429 then
              error_response 429 ''Rate limit exceeded. Please try again later.''
            else if up_status r = 402 then
              error_response 402 ''Payment required. Please add credits to your workspace.''
            else catch_response (ErrorObj (''Gemini AI error: '' @ string_of_nat (up_status r))))
     else
       (case up_json r of
          Inl ex \<Rightarrow> catch_response ex
        | Inr data \<Rightarrow>
            (case truthy_str (extract_image data) of
               None \<Rightarrow> catch_response (ErrorObj ''No cartoon image returned from AI'')
             | Some cartoonImage \<Rightarrow> cartoon_response cartoonImage)))"

text \<open>
  The handler, given the environment and the gateway (a call to it returns a response or
  throws). It returns its response together with the calls it made to the gateway.
\<close>

definition serve ::
  "env \<Rightarrow> (fetch_request \<Rightarrow> thrown + upstream_response) \<Rightarrow> request
    \<Rightarrow> response \<times> fetch_request list" where
  "serve e fetch req =
    (if req_method req = ''OPTIONS'' then (preflight_response, [])
     else
       (case req_json req of
          Inl ex \<Rightarrow> (catch_response ex, [])
        | Inr b \<Rightarrow>
            (case truthy_str (req_image b) of
               None \<Rightarrow> (error_response 400 ''No image provided'', [])
             | Some img \<Rightarrow>
                 (case truthy_str (LOVABLE_API_KEY e) of
                    None \<Rightarrow> (error_response 500 ''AI service not configured'', [])
                  | Some key \<Rightarrow>
                      (let fr = upstream_request key img (req_style b) in
                       case fetch fr of
                         Inl ex \<Rightarrow> (catch_response ex, [fr])
                       | Inr r \<Rightarrow> (relay r, [fr]))))))"


section \<open>Files, images and canvases\<close>

text \<open>
  The pixels a canvas holds are computed by the browser. A bitmap is therefore represented
  by what the code asked the browser to paint: the list of \<open>drawImage\<close> calls since the
  bitmap was last cleared, each with the \<open>ctx.filter\<close> in force, its source and position.
  A file holds either opaque bytes (an upload) or the PNG encoding of such a bitmap.
\<close>

datatype filter_fn = Brightness int | Contrast int | Saturate int

datatype file_t = File (file_bits: bits) (file_name: string) (file_type: string)
  and bits = Bytes "nat list" | Bitmap nat nat "paint list"
  and paint = Paint (paint_filter: "filter_fn list") (paint_source: source) (paint_x: int) (paint_y: int)
  and source = ImageElem file_t nat nat | VideoFrame "nat option" nat

text \<open>\<open>img.width\<close> and \<open>img.height\<close> of a loaded image element.\<close>

fun source_width :: "source \<Rightarrow> nat" where
  "source_width (ImageElem f w h) = w"
| "source_width (VideoFrame st n) = 0"

fun source_height :: "source \<Rightarrow> nat" where
  "source_height (ImageElem f w h) = h"
| "source_height (VideoFrame st n) = 0"

text \<open>
  A canvas element. \<open>cv_context\<close> says whether \<open>getContext('2d')\<close> returns a context.
  The filter \<open>'none'\<close> is the empty list.
\<close>

record canvas =
  cv_width :: nat
  cv_height :: nat
  cv_context :: bool
  cv_filter :: "filter_fn list"
  cv_bitmap :: "paint list"

definition blank_canvas :: canvas where
  "blank_canvas = \<lparr>cv_width = 300, cv_height = 150, cv_context = True, cv_filter = [], cv_bitmap = []\<rparr>"

text \<open>Assigning \<open>canvas.width\<close> or \<open>canvas.height\<close> clears the bitmap and resets the context.\<close>

definition set_width :: "nat \<Rightarrow> canvas \<Rightarrow> canvas" where
  "set_width w c = c\<lparr>cv_width := w, cv_filter := [], cv_bitmap := []\<rparr>"

definition set_height :: "nat \<Rightarrow> canvas \<Rightarrow> canvas" where
  "set_height h c = c\<lparr>cv_height := h, cv_filter := [], cv_bitmap := []\<rparr>"

definition set_filter :: "filter_fn list \<Rightarrow> canvas \<Rightarrow> canvas" where
  "set_filter fs c = c\<lparr>cv_filter := fs\<rparr>"

definition drawImage :: "source \<Rightarrow> int \<Rightarrow> int \<Rightarrow> canvas \<Rightarrow> canvas" where
  "drawImage src x y c = c\<lparr>cv_bitmap := cv_bitmap c @ [Paint (cv_filter c) src x y]\<rparr>"

section \<open>The image editor\<close>

record Adjustments =
  brightness :: int
  contrast :: int
  saturation :: int

definition default_adjustments :: Adjustments where
  "default_adjustments = \<lparr>brightness = 100, contrast = 100, saturation = 100\<rparr>"

text \<open>
  The filter string
  \<open>brightness(${adj.brightness}%) contrast(${adj.contrast}%) saturate(${adj.saturation}%)\<close>.
\<close>

definition css_filter :: "Adjustments \<Rightarrow> filter_fn list" where
  "css_filter adj = [Brightness (brightness adj), Contrast (contrast adj), Saturate (saturation adj)]"

text \<open>\<open>applyFilters\<close>, on the canvas the ref points to (if any).\<close>

definition applyFilters :: "source \<Rightarrow> Adjustments \<Rightarrow> canvas option \<Rightarrow> canvas option" where
  "applyFilters img adj cref =
    (case cref of
       None \<Rightarrow> None
     | Some c \<Rightarrow>
         if \<not> cv_context c then Some c
         else Some (set_filter []
                (drawImage img 0 0
                  (set_filter (css_filter adj)
                    (set_height (source_height img)
                      (set_width (source_width img) c))))))"

text \<open>
  An image whose load was started by the first effect, with the adjustments its
  \<open>onload\<close> callback captured; and a \<open>toBlob\<close> request with the bitmap it snapshots, the
  requested type, and the file name its callback captured.
\<close>

record image_load =
  load_file :: file_t
  load_adjustments :: Adjustments

record export_req =
  exp_width :: nat
  exp_height :: nat
  exp_bitmap :: "paint list"
  exp_type :: string
  exp_name :: string

record editor =
  imageFile :: file_t
  adjustments :: Adjustments
  originalImage :: "source option"
  canvasRef :: "canvas option"
  loads :: "image_load list"
  exports :: "export_req list"

text \<open>\<open>exportAdjustedImage\<close>: the call of \<open>toBlob(callback, 'image/png')\<close>.\<close>

definition exportAdjustedImage :: "editor \<Rightarrow> editor" where
  "exportAdjustedImage ed =
    (case canvasRef ed of
       None \<Rightarrow> ed
     | Some c \<Rightarrow>
         ed\<lparr>exports := exports ed @
           [\<lparr>exp_width = cv_width c, exp_height = cv_height c, exp_bitmap = cv_bitmap c,
             exp_type = ''image/png'', exp_name = file_name (imageFile ed)\<rparr>]\<rparr>)"

text \<open>The first effect (dependency \<open>imageFile\<close>): start loading the file into a new image.\<close>

definition load_effect :: "editor \<Rightarrow> editor" where
  "load_effect ed =
    ed\<lparr>loads := loads ed @ [\<lparr>load_file = imageFile ed, load_adjustments = adjustments ed\<rparr>]\<rparr>"

text \<open>The second effect (dependencies \<open>adjustments\<close>, \<open>originalImage\<close>).\<close>

definition render_effect :: "editor \<Rightarrow> editor" where
  "render_effect ed =
    (case originalImage ed of
       None \<Rightarrow> ed
     | Some img \<Rightarrow>
         exportAdjustedImage (ed\<lparr>canvasRef := applyFilters img (adjustments ed) (canvasRef ed)\<rparr>))"

text \<open>Mounting the editor for a file: initial state, then both effects.\<close>

definition mount_editor :: "file_t \<Rightarrow> editor" where
  "mount_editor f =
    render_effect (load_effect
      \<lparr>imageFile = f, adjustments = default_adjustments, originalImage = None,
       canvasRef = Some blank_canvas, loads = [], exports = []\<rparr>)"

text \<open>
  A render in which the \<open>imageFile\<close> prop is another \<open>File\<close> object than before (whatever
  its content): only the first effect runs again.
\<close>

definition change_imageFile :: "file_t \<Rightarrow> editor \<Rightarrow> editor" where
  "change_imageFile f ed = load_effect (ed\<lparr>imageFile := f\<rparr>)"

text \<open>\<open>setAdjustments\<close> (a slider moved): the state changes and the second effect runs.\<close>

definition setAdjustments :: "Adjustments \<Rightarrow> editor \<Rightarrow> editor" where
  "setAdjustments adj ed = render_effect (ed\<lparr>adjustments := adj\<rparr>)"

definition resetAdjustments :: "editor \<Rightarrow> editor" where
  "resetAdjustments ed =
    setAdjustments \<lparr>brightness = 100, contrast = 100, saturation = 100\<rparr> ed"

text \<open>
  \<open>img.onload\<close> of the oldest pending load, the browser having decoded the file to
  \<open>w\<close> by \<open>h\<close> pixels: \<open>setOriginalImage(img); applyFilters(img, adjustments)\<close> with the
  captured adjustments, then the second effect.
\<close>

definition img_onload :: "nat \<Rightarrow> nat \<Rightarrow> editor \<Rightarrow> editor" where
  "img_onload w h ed =
    (case loads ed of
       [] \<Rightarrow> ed
     | l # ls \<Rightarrow>
         (let img = ImageElem (load_file l) w h in
          render_effect
            (ed\<lparr>loads := ls, originalImage := Some img,
                canvasRef := applyFilters img (load_adjustments l) (canvasRef ed)\<rparr>)))"

text \<open>
  The callback of the oldest \<open>toBlob\<close> request: the browser hands over a blob or
  \<open>null\<close>. With a blob the callback builds
  \<open>new File([blob], imageFile.name, { type: 'image/png' })\<close>, the file given to
  \<open>onImageAdjusted\<close>.
\<close>

definition toBlob_callback :: "bool \<Rightarrow> editor \<Rightarrow> file_t option \<times> editor" where
  "toBlob_callback has_blob ed =
    (case exports ed of
       [] \<Rightarrow> (None, ed)
     | r # rs \<Rightarrow>
         (if has_blob
          then Some (File (Bitmap (exp_width r) (exp_height r) (exp_bitmap r)) (exp_name r) ''image/png'')
          else None,
          ed\<lparr>exports := rs\<rparr>))"


section \<open>The page\<close>

datatype toast = Loading string | Success string | Failure string | Message string

text \<open>The body of a call of the edge function, and what the awaited call gives back.\<close>

record invoke_body =
  inv_image :: "string option"
  inv_style :: CartoonStyle

text \<open>
  \<open>const { data, error } = await supabase.functions.invoke(...)\<close>: an error, or data of
  which the callback reads \<open>data?.cartoon_image\<close>.
\<close>

datatype invoke_result = InvokeError thrown | InvokeData "string option"

text \<open>
  The state of the page: its five state variables, the toast with id \<open>cartoonify\<close>, and
  the asynchronous work \<open>handleCartoonify\<close> has started: the file reads not yet ended
  (each with the style its callback captured), the calls of the edge function not yet
  answered, and the errors thrown inside the callback.
\<close>

record index_state =
  selectedFile :: "file_t option"
  adjustedFile :: "file_t option"
  cartoonImage :: "string option"
  isProcessing :: bool
  selectedStyle :: CartoonStyle
  cartoonify_toast :: "toast option"
  reads :: "(file_t \<times> CartoonStyle) list"
  invocations :: "invoke_body list"
  uncaught :: "thrown list"

definition index_init :: index_state where
  "index_init =
    \<lparr>selectedFile = None, adjustedFile = None, cartoonImage = None, isProcessing = False,
     selectedStyle = Vibrant, cartoonify_toast = None, reads = [], invocations = [],
     uncaught = []\<rparr>"

definition handleImageSelect :: "file_t \<Rightarrow> index_state \<Rightarrow> index_state" where
  "handleImageSelect f s = s\<lparr>selectedFile := Some f, adjustedFile := Some f, cartoonImage := None\<rparr>"

definition handleImageAdjusted :: "file_t \<Rightarrow> index_state \<Rightarrow> index_state" where
  "handleImageAdjusted f s = s\<lparr>adjustedFile := Some f\<rparr>"

definition handleStyleChange :: "CartoonStyle \<Rightarrow> index_state \<Rightarrow> index_state" where
  "handleStyleChange st s = s\<lparr>selectedStyle := st, cartoonImage := None\<rparr>"

definition setIsProcessing :: "bool \<Rightarrow> index_state \<Rightarrow> index_state" where
  "setIsProcessing b s = s\<lparr>isProcessing := b\<rparr>"

text \<open>\<open>reader.readAsDataURL(file)\<close> with the \<open>onloadend\<close> callback set: the read starts.\<close>

definition readAsDataURL :: "file_t \<Rightarrow> index_state \<Rightarrow> index_state" where
  "readAsDataURL f s = s\<lparr>reads := reads s @ [(f, selectedStyle s)]\<rparr>"

text \<open>
  \<open>handleCartoonify\<close>, up to its return: the guard, the flag set, the toast, the body of
  \<open>try\<close> (which only starts the read), and \<open>finally\<close>.
\<close>

definition handleCartoonify :: "index_state \<Rightarrow> index_state" where
  "handleCartoonify s =
    (case adjustedFile s of
       None \<Rightarrow> s
     | Some f \<Rightarrow>
         setIsProcessing False
           (readAsDataURL f
             ((setIsProcessing True s)\<lparr>cartoonify_toast := Some (Loading ''Cartoonifying your image...'')\<rparr>)))"

text \<open>
  \<open>reader.onloadend\<close> for the oldest read, with \<open>reader.result\<close>: the callback runs up to
  its \<open>await\<close>, the call of the edge function being sent.
\<close>

definition reader_onloadend :: "string option \<Rightarrow> index_state \<Rightarrow> index_state" where
  "reader_onloadend result s =
    (case reads s of
       [] \<Rightarrow> s
     | (f, st) # rs \<Rightarrow>
         s\<lparr>reads := rs, invocations := invocations s @ [\<lparr>inv_image = result, inv_style = st\<rparr>]\<rparr>)"

text \<open>The rest of the callback, when the oldest call of the edge function is answered.\<close>

definition invoke_returns :: "invoke_result \<Rightarrow> index_state \<Rightarrow> index_state" where
  "invoke_returns res s =
    (case invocations s of
       [] \<Rightarrow> s
     | i # rest \<Rightarrow>
         (case res of
            InvokeError ex \<Rightarrow> s\<lparr>invocations := rest, uncaught := uncaught s @ [ex]\<rparr>
          | InvokeData d \<Rightarrow>
              (case truthy_str d of
                 Some u \<Rightarrow>
                   s\<lparr>invocations := rest, cartoonImage := Some u,
                      cartoonify_toast := Some (Success ''Image cartoonified successfully!'')\<rparr>
               | None \<Rightarrow>
                   s\<lparr>invocations := rest,
                      uncaught := uncaught s @ [ErrorObj ''No cartoon image returned'']\<rparr>)))"

text \<open>
  The trigger: the button is rendered when \<open>selectedFile && !cartoonImage\<close> and is
  disabled by \<open>isProcessing\<close>.
\<close>

definition cartoonify_enabled :: "index_state \<Rightarrow> bool" where
  "cartoonify_enabled s = (selectedFile s \<noteq> None \<and> cartoonImage s = None \<and> \<not> isProcessing s)"

text \<open>A stylization request is outstanding from the start of the read to the answer.\<close>

definition outstanding :: "index_state \<Rightarrow> nat" where
  "outstanding s = length (reads s) + length (invocations s)"

section \<open>The image uploader\<close>

datatype facing = User | Environment

datatype QualityPreset = Low | Medium | High

fun QUALITY_PRESETS :: "QualityPreset \<Rightarrow> nat \<times> nat" where
  "QUALITY_PRESETS Low = (640, 480)"
| "QUALITY_PRESETS Medium = (1280, 720)"
| "QUALITY_PRESETS High = (1920, 1080)"

record CapturedImage =
  ci_file :: file_t
  ci_preview :: "string option"
  ci_id :: string

text \<open>A media stream, with the constraints it was asked for.\<close>

record stream =
  stream_id :: nat
  stream_facing :: facing
  stream_ideal :: "nat \<times> nat"

record video =
  srcObject :: "stream option"

text \<open>
  The state of the uploader: its state variables, its two refs, and of the browser the
  streams whose tracks are running and the number of the next stream. \<open>videoRef\<close> is
  the mounted video element, if any.
\<close>

record uploader =
  preview :: "string option"
  isWebcamActive :: bool
  capturedImages :: "CapturedImage list"
  selectedImageId :: "string option"
  facingMode :: facing
  quality :: QualityPreset
  videoRef :: "video option"
  streamRef :: "stream option"
  live_streams :: "stream list"
  next_stream :: nat
  toasts :: "toast list"

definition uploader_init :: uploader where
  "uploader_init =
    \<lparr>preview = None, isWebcamActive = False, capturedImages = [], selectedImageId = None,
     facingMode = User, quality = Medium, videoRef = None, streamRef = None,
     live_streams = [], next_stream = 0, toasts = []\<rparr>"

text \<open>
  A render: the video element is part of the output only when \<open>isWebcamActive\<close> holds,
  so the ref is set exactly then.
\<close>

definition rerender :: "uploader \<Rightarrow> uploader" where
  "rerender u =
    u\<lparr>videoRef :=
        (if isWebcamActive u
         then Some (case videoRef u of None \<Rightarrow> \<lparr>srcObject = None\<rparr> | Some v \<Rightarrow> v)
         else None)\<rparr>"

definition stopWebcam :: "uploader \<Rightarrow> uploader" where
  "stopWebcam u =
    (let u1 = (case streamRef u of
                 None \<Rightarrow> u
               | Some st \<Rightarrow> u\<lparr>live_streams := removeAll st (live_streams u), streamRef := None\<rparr>);
         u2 = (case videoRef u1 of
                 None \<Rightarrow> u1
               | Some v \<Rightarrow> u1\<lparr>videoRef := Some (v\<lparr>srcObject := None\<rparr>)\<rparr>)
     in rerender (u2\<lparr>isWebcamActive := False\<rparr>))"

text \<open>
  What the browser answers during one \<open>startWebcam\<close>: whether \<open>getUserMedia\<close> exists,
  the name of the error it rejects with (\<open>None\<close>: it resolves with a stream), and whether
  \<open>play()\<close> resolves.
\<close>

record webcam_env =
  supported :: bool
  getUserMedia_error :: "string option"
  play_ok :: bool

definition webcam_error_message :: "string \<Rightarrow> string" where
  "webcam_error_message name =
    (if name = ''NotAllowedError'' then ''Camera permission denied. Please enable permissions.''
     else if name = ''NotFoundError'' then ''No camera device found.''
     else if name = ''NotReadableError'' then ''Camera is in use by another app.''
     else ''Unable to access webcam.'')"

definition add_toast :: "toast \<Rightarrow> uploader \<Rightarrow> uploader" where
  "add_toast t u = u\<lparr>toasts := toasts u @ [t]\<rparr>"

definition startWebcam :: "webcam_env \<Rightarrow> uploader \<Rightarrow> uploader" where
  "startWebcam e u =
    (if \<not> supported e then add_toast (Failure ''Camera not supported in this browser.'') u
     else
       (let u1 = (if isWebcamActive u then stopWebcam u else u) in
        case getUserMedia_error e of
          Some name \<Rightarrow> add_toast (Failure (webcam_error_message name)) (rerender u1)
        | None \<Rightarrow>
            (let st = \<lparr>stream_id = next_stream u1, stream_facing = facingMode u,
                       stream_ideal = QUALITY_PRESETS (quality u)\<rparr>;
                 u2 = (rerender u1)\<lparr>next_stream := Suc (next_stream u1),
                                    live_streams := live_streams u1 @ [st],
                                    streamRef := Some st\<rparr>
             in case videoRef u2 of
                  None \<Rightarrow> u2
                | Some v \<Rightarrow>
                    (let u3 = u2\<lparr>videoRef := Some (v\<lparr>srcObject := Some st\<rparr>), isWebcamActive := True\<rparr>
                     in rerender
                          (if play_ok e then u3
                           else add_toast (Message ''Tap the video to start preview'') u3)))))"

text \<open>
  What the browser answers during one \<open>capturePhoto\<close>: the size of the video frame, its
  number, whether the new canvas gives a 2D context, whether \<open>toBlob\<close> hands over a blob,
  \<open>Date.now()\<close> in the blob callback, \<open>reader.result\<close>, and \<open>Date.now()\<close> in
  \<open>onloadend\<close>.
\<close>

record capture_env =
  videoWidth :: nat
  videoHeight :: nat
  frame_no :: nat
  context_ok :: bool
  blob_ok :: bool
  now_blob :: nat
  reader_result :: "string option"
  now_loadend :: nat

definition capturePhoto :: "capture_env \<Rightarrow> uploader \<Rightarrow> uploader" where
  "capturePhoto e u =
    (case videoRef u of
       None \<Rightarrow> u
     | Some v \<Rightarrow>
         if \<not> context_ok e then u
         else if \<not> blob_ok e then u
         else
           (let cv = drawImage (VideoFrame (map_option stream_id (srcObject v)) (frame_no e)) 0 0
                       (set_height (videoHeight e) (set_width (videoWidth e) blank_canvas));
                f = File (Bitmap (cv_width cv) (cv_height cv) (cv_bitmap cv))
                      (''webcam-'' @ string_of_nat (now_blob e) @ ''.png'') ''image/png'';
                newImage = \<lparr>ci_file = f, ci_preview = reader_result e,
                             ci_id = string_of_nat (now_loadend e)\<rparr>
            in add_toast (Success ''Photo captured!'')
                 (u\<lparr>capturedImages := capturedImages u @ [newImage]\<rparr>)))"

section \<open>The application: page, editor and uploader together\<close>

text \<open>
  The page renders the uploader always and the editor only when \<open>selectedFile\<close> is set;
  the uploader's \<open>onImageSelect\<close> is the page's \<open>handleImageSelect\<close> and the editor's
  \<open>onImageAdjusted\<close> is the page's \<open>handleImageAdjusted\<close>.
\<close>

record app =
  page :: index_state
  image_editor :: "editor option"
  image_uploader :: uploader

definition app_init :: app where
  "app_init = \<lparr>page = index_init, image_editor = None, image_uploader = uploader_init\<rparr>"

text \<open>
  \<open>onImageSelect(file)\<close> with a \<open>File\<close> object the page does not hold yet, and the render
  that follows it.
\<close>

definition onImageSelect :: "file_t \<Rightarrow> app \<Rightarrow> app" where
  "onImageSelect f a =
    a\<lparr>page := handleImageSelect f (page a),
      image_editor := Some (case image_editor a of
                              None \<Rightarrow> mount_editor f
                            | Some ed \<Rightarrow> change_imageFile f ed)\<rparr>"

text \<open>
  \<open>onDrop\<close>, with the result of reading the first accepted file for the preview. Every
  drop delivers new \<open>File\<close> objects.
\<close>

definition onDrop :: "file_t list \<Rightarrow> string option \<Rightarrow> app \<Rightarrow> app" where
  "onDrop acceptedFiles result a =
    (case acceptedFiles of
       [] \<Rightarrow> a
     | f # fs \<Rightarrow>
         (let a1 = onImageSelect f a
          in a1\<lparr>image_uploader := (image_uploader a1)\<lparr>preview := result\<rparr>\<rparr>))"

text \<open>
  \<open>selectImage\<close>. A capture keeps its one \<open>File\<close> object, so the object handed to
  \<open>onImageSelect\<close> may be the one the page holds already (\<open>same_object\<close>); then the
  page's handler runs, but no prop of the editor changes and none of its effects runs.
\<close>

definition selectImage :: "bool \<Rightarrow> CapturedImage \<Rightarrow> app \<Rightarrow> app" where
  "selectImage same_object img a =
    (let a1 = a\<lparr>image_uploader :=
                 (image_uploader a)\<lparr>selectedImageId := Some (ci_id img), preview := ci_preview img\<rparr>\<rparr>
     in if same_object \<and> selectedFile (page a) = Some (ci_file img)
        then a1\<lparr>page := handleImageSelect (ci_file img) (page a1)\<rparr>
        else onImageSelect (ci_file img) a1)"

definition deleteImage :: "string \<Rightarrow> uploader \<Rightarrow> uploader" where
  "deleteImage i u =
    (let u1 = u\<lparr>capturedImages := filter (\<lambda>img. ci_id img \<noteq> i) (capturedImages u)\<rparr>
     in if selectedImageId u = Some i
        then u1\<lparr>selectedImageId := None, preview := None\<rparr>
        else u1)"

definition app_deleteImage :: "string \<Rightarrow> app \<Rightarrow> app" where
  "app_deleteImage i a = a\<lparr>image_uploader := deleteImage i (image_uploader a)\<rparr>"

definition app_capturePhoto :: "capture_env \<Rightarrow> app \<Rightarrow> app" where
  "app_capturePhoto e a = a\<lparr>image_uploader := capturePhoto e (image_uploader a)\<rparr>"

text \<open>The editor's events, seen from the application.\<close>

definition app_edit :: "(editor \<Rightarrow> editor) \<Rightarrow> app \<Rightarrow> app" where
  "app_edit step a = a\<lparr>image_editor := map_option step (image_editor a)\<rparr>"

definition app_toBlob_callback :: "bool \<Rightarrow> app \<Rightarrow> app" where
  "app_toBlob_callback has_blob a =
    (case image_editor a of
       None \<Rightarrow> a
     | Some ed \<Rightarrow>
         (case toBlob_callback has_blob ed of
            (None, ed') \<Rightarrow> a\<lparr>image_editor := Some ed'\<rparr>
          | (Some f, ed') \<Rightarrow>
              a\<lparr>image_editor := Some ed', page := handleImageAdjusted f (page a)\<rparr>))"


section \<open>Sample inputs\<close>

text \<open>A gateway that answers every call with the given response, and one that is unreachable.\<close>

definition gateway_answers :: "upstream_response \<Rightarrow> fetch_request \<Rightarrow> thrown + upstream_response" where
  "gateway_answers r fr = Inr r"

definition gateway_down :: "fetch_request \<Rightarrow> thrown + upstream_response" where
  "gateway_down fr = Inl (ErrorObj ''error sending request'')"

definition empty_completion :: completion_t where
  "empty_completion = \<lparr>choices = Some []\<rparr>"

definition post_request :: "string option \<Rightarrow> string option \<Rightarrow> request" where
  "post_request img sty = \<lparr>req_method = ''POST'', req_json = Inr \<lparr>req_image = img, req_style = sty\<rparr>\<rparr>"

definition upstream_failure :: "nat \<Rightarrow> upstream_response" where
  "upstream_failure st =
    \<lparr>up_status = st, up_text = Inr ''upstream error'', up_json = Inl (ErrorObj ''Unexpected token'')\<rparr>"

definition upstream_success :: "completion_t \<Rightarrow> upstream_response" where
  "upstream_success d = \<lparr>up_status = 200, up_text = Inr [], up_json = Inr d\<rparr>"

definition photo1 :: file_t where
  "photo1 = File (Bytes [137, 80, 78, 71]) ''image.png'' ''image/png''"

definition photo2 :: file_t where
  "photo2 = File (Bytes [255, 216, 255]) ''second.jpg'' ''image/jpeg''"

definition brighter :: Adjustments where
  "brighter = \<lparr>brightness = 150, contrast = 100, saturation = 100\<rparr>"

text \<open>An editor whose image has loaded (4 by 3 pixels) and whose first export is done.\<close>

definition loaded_editor :: editor where
  "loaded_editor = snd (toBlob_callback True (img_onload 4 3 (mount_editor photo1)))"

text \<open>A session: first image selected and loaded, then the brightness raised to 150.\<close>

definition adjusted_session :: app where
  "adjusted_session =
    app_edit (setAdjustments brighter) (app_edit (img_onload 4 3) (onImageSelect photo1 app_init))"

definition camera_grants :: webcam_env where
  "camera_grants = \<lparr>supported = True, getUserMedia_error = None, play_ok = True\<rparr>"

text \<open>A capture of a 2 by 2 frame that completes at time \<open>t\<close>.\<close>

definition shot :: "nat \<Rightarrow> capture_env" where
  "shot t =
    \<lparr>videoWidth = 2, videoHeight = 2, frame_no = t, context_ok = True, blob_ok = True,
     now_blob = t, reader_result = Some ''data:image/png;base64,AAAA'', now_loadend = t\<rparr>"

text \<open>
  A gateway response whose body cannot be read, a request whose body is not JSON, and a
  preflight request.
\<close>

definition upstream_unreadable :: "nat \<Rightarrow> upstream_response" where
  "upstream_unreadable st =
    \<lparr>up_status = st, up_text = Inl (ErrorObj ''body stream error''),
     up_json = Inl (ErrorObj ''Unexpected end of JSON input'')\<rparr>"



section \<open>Properties of the style registry\<close>

lemma map_of_stylePrompts_vibrant: "map_of stylePrompts ''vibrant'' = Some prompt_vibrant"
  by (simp add: stylePrompts_def)

text \<open>Each of the twelve tags of the selector has its own, non-empty instruction.\<close>

lemma promptText_enumerated:
  "promptText (style_tag t) = JStr (the (map_of stylePrompts (style_tag t)))
   \<and> the (map_of stylePrompts (style_tag t)) \<noteq> []"
  by (cases t) (simp_all add: promptText_def js_or_def get_prop_def stylePrompts_def
      prompt_vibrant_def prompt_anime_def prompt_comic_def prompt_watercolor_def prompt_sketch_def
      prompt_pixar_def prompt_retro_def prompt_noir_def prompt_popart_def prompt_oil_def
      prompt_fantasy_def prompt_minimalist_def)

text \<open>A key that is neither in the table nor inherited falls back to \<open>vibrant\<close>.\<close>

lemma promptText_unknown:
  "map_of stylePrompts k = None \<Longrightarrow> k \<notin> set object_prototype \<Longrightarrow> promptText k = JStr prompt_vibrant"
  by (simp add: promptText_def js_or_def get_prop_def map_of_stylePrompts_vibrant prompt_vibrant_def)

text \<open>
  C3. The lookup is to give, for every string that is not a key of the table, the
  instruction of the default tag. At the style \<open>constructor\<close>, which is not a key of the
  table, \<open>stylePrompts[style]\<close> is the function inherited from \<open>Object.prototype\<close>; it is
  truthy, so the fallback is not taken, and the call sent to the gateway carries that
  function in place of an instruction.
\<close>

theorem inherited_key_end_to_end:
  "map_of stylePrompts ''constructor'' = None
   \<and> promptText ''constructor'' = JFun ''constructor''
   \<and> map fetch_text (snd (serve \<lparr>LOVABLE_API_KEY = Some ''k''\<rparr> gateway_down
         (post_request (Some ''data:image/png;base64,AAAA'') (Some ''constructor''))))
       = [JFun ''constructor'']"
  by (simp add: promptText_def js_or_def get_prop_def stylePrompts_def object_prototype_def
      serve_def post_request_def gateway_down_def upstream_request_def Let_def)

section \<open>Properties of the handler\<close>

lemma catch_response_shape: "\<exists>m. body (catch_response ex) = Some [(''error'', m)]"
  by (cases ex) (simp_all add: error_response_def)

lemma relay_shape:
  "status (relay r) \<noteq> 200 \<Longrightarrow> \<exists>m. body (relay r) = Some [(''error'', m)]"
  using catch_response_shape
  by (auto simp: relay_def error_response_def cartoon_response_def
           split: if_splits option.splits sum.splits)

text \<open>Every response other than a 200 has a body of the shape \<open>{error: string}\<close>.\<close>

lemma serve_error_shape:
  "status (fst (serve e fetch req)) \<noteq> 200 \<Longrightarrow>
     \<exists>m. body (fst (serve e fetch req)) = Some [(''error'', m)]"
  using relay_shape catch_response_shape
  by (auto simp: serve_def Let_def preflight_response_def error_response_def
           split: if_splits option.splits sum.splits)

lemma serve_reaches_relay:
  assumes "req_method req \<noteq> ''OPTIONS''" and "req_json req = Inr b"
    and "truthy_str (req_image b) = Some img" and "truthy_str (LOVABLE_API_KEY e) = Some key"
    and "fetch (upstream_request key img (req_style b)) = Inr r"
  shows "serve e fetch req = (relay r, [upstream_request key img (req_style b)])"
  using assms by (simp add: serve_def Let_def)

subsection \<open>The decimal rendering of the status\<close>

lemma string_of_nat_503: "string_of_nat 503 = ''503''"
  by code_simp

lemma string_of_nat_nonempty: "string_of_nat n \<noteq> []"
  by (subst string_of_nat.simps) simp

lemma digit_char_inj:
  assumes "a < 10" and "b < 10" and "(char_of (48 + a) :: char) = char_of (48 + b)"
  shows "a = (b::nat)"
proof -
  have "of_char (char_of (48 + a) :: char) = (of_char (char_of (48 + b) :: char) :: nat)"
    using assms(3) by simp
  then have "(48 + a) mod 256 = (48 + b) mod 256"
    by simp
  with assms(1,2) show ?thesis by simp
qed

text \<open>Different statuses are rendered differently, so the message determines the status.\<close>

lemma string_of_nat_inj: "string_of_nat a = string_of_nat b \<Longrightarrow> a = b"
proof (induction a arbitrary: b rule: string_of_nat.induct)
  case (1 n)
  show ?case
  proof (cases "n < 10")
    case small_n: True
    show ?thesis
    proof (cases "b < 10")
      case True
      with small_n "1.prems" show ?thesis
        by (simp add: string_of_nat.simps [of n] string_of_nat.simps [of b] digit_char_inj)
    next
      case False
      with small_n "1.prems" string_of_nat_nonempty [of "b div 10"] show ?thesis
        by (simp add: string_of_nat.simps [of n] string_of_nat.simps [of b])
    qed
  next
    case big_n: False
    show ?thesis
    proof (cases "b < 10")
      case True
      with big_n "1.prems" string_of_nat_nonempty [of "n div 10"] show ?thesis
        by (simp add: string_of_nat.simps [of n] string_of_nat.simps [of b])
    next
      case False
      with big_n "1.prems" have eq: "string_of_nat (n div 10) = string_of_nat (b div 10)"
        and d: "(char_of (48 + n mod 10) :: char) = char_of (48 + b mod 10)"
        by (simp_all add: string_of_nat.simps [of n] string_of_nat.simps [of b])
      from "1.IH" [OF big_n eq] have "n div 10 = b div 10" .
      moreover have "n mod 10 = b mod 10"
        using d by (intro digit_char_inj) simp_all
      ultimately show ?thesis
        by (metis div_mult_mod_eq)
    qed
  qed
qed

subsection \<open>Responses of the gateway\<close>

text \<open>
  C4, as stated, fails. The handler reads the body of a failed response before it looks
  at the status: a 429 whose body cannot be read is answered with status 500 and the
  message of the read error, not relayed as a 429. Likewise a 200 whose body is not JSON
  holds no image, and is answered with the message of the parse error, not with the
  no-image error.
\<close>

theorem unreadable_response_counterexample:
  "status (fst (serve \<lparr>LOVABLE_API_KEY = Some ''k''\<rparr> (gateway_answers (upstream_unreadable 429))
        (post_request (Some ''data:image/png;base64,AAAA'') (Some ''anime'')))) = 500
   \<and> body (fst (serve \<lparr>LOVABLE_API_KEY = Some ''k''\<rparr> (gateway_answers (upstream_unreadable 429))
        (post_request (Some ''data:image/png;base64,AAAA'') (Some ''anime''))))
      = Some [(''error'', ''body stream error'')]
   \<and> body (fst (serve \<lparr>LOVABLE_API_KEY = Some ''k''\<rparr> (gateway_answers (upstream_unreadable 200))
        (post_request (Some ''data:image/png;base64,AAAA'') (Some ''anime''))))
      = Some [(''error'', ''Unexpected end of JSON input'')]"
  by (simp add: serve_def post_request_def gateway_answers_def upstream_unreadable_def relay_def
      up_ok_def error_response_def Let_def)

text \<open>
  C4, amended. Whenever the handler has called the gateway and received a response
  \<open>r\<close>: if the body of \<open>r\<close> can be read, then status 429 is answered with status 429 and
  the rate-limit message, status 402 with status 402 and the payment-required message,
  any other status outside 200..299 with status 500 and the message
  \<open>Gemini AI error: \<close> followed by that status in decimal, and a 2xx response whose
  completion holds no image with status 500 and the message
  \<open>No cartoon image returned from AI\<close>; if reading the body throws an error, the answer
  is status 500 with that error's message. Every answer that is not a 200 has a body of
  the shape \<open>{error: string}\<close>.
\<close>

theorem upstream_errors_relayed:
  assumes "req_method req \<noteq> ''OPTIONS''" and "req_json req = Inr b"
    and "truthy_str (req_image b) = Some img" and "truthy_str (LOVABLE_API_KEY e) = Some key"
    and "fetch (upstream_request key img (req_style b)) = Inr r"
  shows "(up_status r = 429 \<and> \<not> isl (up_text r) \<longrightarrow>
            status (fst (serve e fetch req)) = 429
            \<and> body (fst (serve e fetch req))
                = Some [(''error'', ''Rate limit exceeded. Please try again later.'')])
       \<and> (up_status r = 402 \<and> \<not> isl (up_text r) \<longrightarrow>
            status (fst (serve e fetch req)) = 402
            \<and> body (fst (serve e fetch req))
                = Some [(''error'', ''Payment required. Please add credits to your workspace.'')])
       \<and> (\<not> up_ok r \<and> up_status r \<noteq> 429 \<and> up_status r \<noteq> 402 \<and> \<not> isl (up_text r) \<longrightarrow>
            status (fst (serve e fetch req)) = 500
            \<and> body (fst (serve e fetch req))
                = Some [(''error'', ''Gemini AI error: '' @ string_of_nat (up_status r))])
       \<and> (up_ok r \<and> (\<exists>d. up_json r = Inr d \<and> truthy_str (extract_image d) = None) \<longrightarrow>
            status (fst (serve e fetch req)) = 500
            \<and> body (fst (serve e fetch req))
                = Some [(''error'', ''No cartoon image returned from AI'')])
       \<and> (\<forall>m. (\<not> up_ok r \<and> up_text r = Inl (ErrorObj m)) \<or> (up_ok r \<and> up_json r = Inl (ErrorObj m)) \<longrightarrow>
            status (fst (serve e fetch req)) = 500
            \<and> body (fst (serve e fetch req)) = Some [(''error'', m)])
       \<and> (status (fst (serve e fetch req)) \<noteq> 200 \<longrightarrow>
            (\<exists>m. body (fst (serve e fetch req)) = Some [(''error'', m)]))"
proof -
  have s: "fst (serve e fetch req) = relay r"
    using assms by (simp add: serve_reaches_relay [of req b img e key fetch r])
  have c1: "up_status r = 429 \<and> \<not> isl (up_text r) \<longrightarrow>
      status (relay r) = 429
      \<and> body (relay r) = Some [(''error'', ''Rate limit exceeded. Please try again later.'')]"
    by (cases "up_text r") (simp_all add: relay_def up_ok_def error_response_def)
  have c2: "up_status r = 402 \<and> \<not> isl (up_text r) \<longrightarrow>
      status (relay r) = 402
      \<and> body (relay r) = Some [(''error'', ''Payment required. Please add credits to your workspace.'')]"
    by (cases "up_text r") (simp_all add: relay_def up_ok_def error_response_def)
  have c3: "\<not> up_ok r \<and> up_status r \<noteq> 429 \<and> up_status r \<noteq> 402 \<and> \<not> isl (up_text r) \<longrightarrow>
      status (relay r) = 500
      \<and> body (relay r) = Some [(''error'', ''Gemini AI error: '' @ string_of_nat (up_status r))]"
    by (cases "up_text r") (simp_all add: relay_def error_response_def)
  have c4: "up_ok r \<and> (\<exists>d. up_json r = Inr d \<and> truthy_str (extract_image d) = None) \<longrightarrow>
      status (relay r) = 500
      \<and> body (relay r) = Some [(''error'', ''No cartoon image returned from AI'')]"
    by (auto simp: relay_def error_response_def)
  have c5: "\<forall>m. (\<not> up_ok r \<and> up_text r = Inl (ErrorObj m)) \<or> (up_ok r \<and> up_json r = Inl (ErrorObj m)) \<longrightarrow>
      status (relay r) = 500 \<and> body (relay r) = Some [(''error'', m)]"
    by (auto simp: relay_def error_response_def)
  have c6: "status (relay r) \<noteq> 200 \<longrightarrow> (\<exists>m. body (relay r) = Some [(''error'', m)])"
    using relay_shape by blast
  show ?thesis
    unfolding s using c1 c2 c3 c4 c5 c6 by blast
qed

text \<open>
  The amended C4 at five responses of the gateway to one request: status 429, status
  402, status 503, a 200 whose completion has no choices, and a 503 whose body cannot be
  read.
\<close>

theorem upstream_errors_relayed_witness:
  "status (fst (serve \<lparr>LOVABLE_API_KEY = Some ''k''\<rparr> (gateway_answers (upstream_failure 429))
        (post_request (Some ''data:image/png;base64,AAAA'') (Some ''anime'')))) = 429
   \<and> body (fst (serve \<lparr>LOVABLE_API_KEY = Some ''k''\<rparr> (gateway_answers (upstream_failure 429))
        (post_request (Some ''data:image/png;base64,AAAA'') (Some ''anime''))))
      = Some [(''error'', ''Rate limit exceeded. Please try again later.'')]
   \<and> status (fst (serve \<lparr>LOVABLE_API_KEY = Some ''k''\<rparr> (gateway_answers (upstream_failure 402))
        (post_request (Some ''data:image/png;base64,AAAA'') (Some ''anime'')))) = 402
   \<and> body (fst (serve \<lparr>LOVABLE_API_KEY = Some ''k''\<rparr> (gateway_answers (upstream_failure 402))
        (post_request (Some ''data:image/png;base64,AAAA'') (Some ''anime''))))
      = Some [(''error'', ''Payment required. Please add credits to your workspace.'')]
   \<and> status (fst (serve \<lparr>LOVABLE_API_KEY = Some ''k''\<rparr> (gateway_answers (upstream_failure 503))
        (post_request (Some ''data:image/png;base64,AAAA'') (Some ''anime'')))) = 500
   \<and> body (fst (serve \<lparr>LOVABLE_API_KEY = Some ''k''\<rparr> (gateway_answers (upstream_failure 503))
        (post_request (Some ''data:image/png;base64,AAAA'') (Some ''anime''))))
      = Some [(''error'', ''Gemini AI error: 503'')]
   \<and> status (fst (serve \<lparr>LOVABLE_API_KEY = Some ''k''\<rparr> (gateway_answers (upstream_success empty_completion))
        (post_request (Some ''data:image/png;base64,AAAA'') (Some ''anime'')))) = 500
   \<and> body (fst (serve \<lparr>LOVABLE_API_KEY = Some ''k''\<rparr> (gateway_answers (upstream_success empty_completion))
        (post_request (Some ''data:image/png;base64,AAAA'') (Some ''anime''))))
      = Some [(''error'', ''No cartoon image returned from AI'')]
   \<and> body (fst (serve \<lparr>LOVABLE_API_KEY = Some ''k''\<rparr> (gateway_answers (upstream_unreadable 503))
        (post_request (Some ''data:image/png;base64,AAAA'') (Some ''anime''))))
      = Some [(''error'', ''body stream error'')]"
proof -
  let ?e = "\<lparr>LOVABLE_API_KEY = Some ''k''\<rparr>"
  let ?req = "post_request (Some ''data:image/png;base64,AAAA'') (Some ''anime'')"
  let ?b = "\<lparr>req_image = Some ''data:image/png;base64,AAAA'', req_style = Some ''anime''\<rparr>"
  have h1: "req_method ?req \<noteq> ''OPTIONS''" by (simp add: post_request_def)
  have h2: "req_json ?req = Inr ?b" by (simp add: post_request_def)
  have h3: "truthy_str (req_image ?b) = Some ''data:image/png;base64,AAAA''" by simp
  have h4: "truthy_str (LOVABLE_API_KEY ?e) = Some ''k''" by simp
  have h5: "gateway_answers r (upstream_request ''k'' ''data:image/png;base64,AAAA'' (req_style ?b)) = Inr r"
    for r by (simp add: gateway_answers_def)
  have unreadable: "\<not> up_ok (upstream_unreadable 503)
      \<and> up_text (upstream_unreadable 503) = Inl (ErrorObj ''body stream error'')"
    by (simp add: upstream_unreadable_def up_ok_def)
  show ?thesis
    using upstream_errors_relayed [of ?req ?b _ ?e _ "gateway_answers (upstream_failure 429)", OF h1 h2 h3 h4 h5]
      upstream_errors_relayed [of ?req ?b _ ?e _ "gateway_answers (upstream_failure 402)", OF h1 h2 h3 h4 h5]
      upstream_errors_relayed [of ?req ?b _ ?e _ "gateway_answers (upstream_failure 503)", OF h1 h2 h3 h4 h5]
      upstream_errors_relayed [of ?req ?b _ ?e _ "gateway_answers (upstream_success empty_completion)",
        OF h1 h2 h3 h4 h5]
      upstream_errors_relayed [of ?req ?b _ ?e _ "gateway_answers (upstream_unreadable 503)",
        OF h1 h2 h3 h4 h5] unreadable
    by (simp add: upstream_failure_def upstream_success_def up_ok_def empty_completion_def
        extract_image_def string_of_nat_503)
qed

subsection \<open>Validation and the credential\<close>




section \<open>Properties of the page\<close>

text \<open>When \<open>handleCartoonify\<close> returns, the flag is set only if it was set and nothing was submitted.\<close>

lemma handleCartoonify_flag:
  "isProcessing (handleCartoonify s) = (adjustedFile s = None \<and> isProcessing s)"
  by (simp add: handleCartoonify_def setIsProcessing_def readAsDataURL_def split: option.splits)

lemma handleCartoonify_outstanding:
  "outstanding (handleCartoonify s) =
     (if adjustedFile s = None then outstanding s else Suc (outstanding s))"
  by (simp add: handleCartoonify_def setIsProcessing_def readAsDataURL_def outstanding_def
      split: option.splits)

text \<open>What the two handlers do to the result and to each other's state.\<close>

lemma handlers_clear_result:
  "cartoonImage (handleImageSelect f s) = None
   \<and> selectedFile (handleImageSelect f s) = Some f
   \<and> selectedStyle (handleImageSelect f s) = selectedStyle s
   \<and> cartoonImage (handleStyleChange st s) = None
   \<and> selectedStyle (handleStyleChange st s) = st
   \<and> selectedFile (handleStyleChange st s) = selectedFile s
   \<and> adjustedFile (handleStyleChange st s) = adjustedFile s"
  by (simp add: handleImageSelect_def handleStyleChange_def)

text \<open>
  C1. The processing flag is to be set exactly while a stylization request is
  outstanding, so that no second request can start. With one image selected:
  when \<open>handleCartoonify\<close> returns, one request is outstanding, the flag is already
  cleared and the trigger is enabled; a second submission made after the first read has
  ended puts two calls of the edge function in flight at once.
\<close>

theorem flag_cleared_while_request_outstanding:
  "outstanding (handleCartoonify (handleImageSelect photo1 index_init)) = 1
   \<and> \<not> isProcessing (handleCartoonify (handleImageSelect photo1 index_init))
   \<and> cartoonify_enabled (handleCartoonify (handleImageSelect photo1 index_init))
   \<and> length (invocations
        (reader_onloadend (Some ''data:image/png;base64,iVBORw=='')
          (handleCartoonify
            (reader_onloadend (Some ''data:image/png;base64,iVBORw=='')
              (handleCartoonify (handleImageSelect photo1 index_init)))))) = 2"
  by (simp add: handleCartoonify_def setIsProcessing_def readAsDataURL_def outstanding_def
      handleImageSelect_def index_init_def cartoonify_enabled_def reader_onloadend_def)

text \<open>
  C10. The displayed result is never to belong to a stale style. A request is submitted
  with style \<open>vibrant\<close>; while it is in flight the style is changed to \<open>anime\<close> (which
  clears the result); the answer to the request then becomes the displayed result, under
  the selected style \<open>anime\<close>.
\<close>

theorem late_result_is_stale:
  "cartoonImage
     (invoke_returns (InvokeData (Some ''data:image/png;base64,AAAA''))
       (handleStyleChange Anime
         (reader_onloadend (Some ''data:image/png;base64,iVBORw=='')
           (handleCartoonify (handleImageSelect photo1 index_init)))))
     = Some ''data:image/png;base64,AAAA''
   \<and> selectedStyle
     (invoke_returns (InvokeData (Some ''data:image/png;base64,AAAA''))
       (handleStyleChange Anime
         (reader_onloadend (Some ''data:image/png;base64,iVBORw=='')
           (handleCartoonify (handleImageSelect photo1 index_init))))) = Anime
   \<and> map inv_style (invocations
         (reader_onloadend (Some ''data:image/png;base64,iVBORw=='')
           (handleCartoonify (handleImageSelect photo1 index_init)))) = [Vibrant]"
  by (simp add: handleCartoonify_def setIsProcessing_def readAsDataURL_def
      handleImageSelect_def index_init_def reader_onloadend_def handleStyleChange_def
      invoke_returns_def)

section \<open>Properties of the editor\<close>

lemma adjustments_render_effect [simp]: "adjustments (render_effect ed) = adjustments ed"
  by (simp add: render_effect_def exportAdjustedImage_def split: option.splits)

lemma adjustments_load_effect [simp]: "adjustments (load_effect ed) = adjustments ed"
  by (simp add: load_effect_def)

lemma adjustments_mount_editor: "adjustments (mount_editor f) = default_adjustments"
  by (simp add: mount_editor_def)

lemma adjustments_change_imageFile: "adjustments (change_imageFile f ed) = adjustments ed"
  by (simp add: change_imageFile_def)

text \<open>On a canvas with a context, \<open>applyFilters\<close> leaves exactly one painting.\<close>

lemma applyFilters_bitmap:
  "cv_context c \<Longrightarrow> applyFilters img adj (Some c) =
     Some (c\<lparr>cv_width := source_width img, cv_height := source_height img, cv_filter := [],
             cv_bitmap := [Paint (css_filter adj) img 0 0]\<rparr>)"
  by (simp add: applyFilters_def set_filter_def set_width_def set_height_def drawImage_def)

text \<open>After a reset the canvas holds the original image painted under the filters at 100.\<close>

lemma reset_repaints_original:
  "originalImage ed = Some img \<Longrightarrow> canvasRef ed = Some c \<Longrightarrow> cv_context c \<Longrightarrow>
     map_option cv_bitmap (canvasRef (resetAdjustments ed)) =
       Some [Paint [Brightness 100, Contrast 100, Saturate 100] img 0 0]"
  by (simp add: resetAdjustments_def setAdjustments_def render_effect_def exportAdjustedImage_def
      applyFilters_bitmap css_filter_def)

lemma loaded_editor_eq:
  "loaded_editor =
     \<lparr>imageFile = photo1, adjustments = default_adjustments,
      originalImage = Some (ImageElem photo1 4 3),
      canvasRef = Some \<lparr>cv_width = 4, cv_height = 3, cv_context = True, cv_filter = [],
            cv_bitmap = [Paint [Brightness 100, Contrast 100, Saturate 100] (ImageElem photo1 4 3) 0 0]\<rparr>,
      loads = [], exports = []\<rparr>"
  by (simp add: loaded_editor_def img_onload_def mount_editor_def load_effect_def render_effect_def
        exportAdjustedImage_def applyFilters_def Let_def blank_canvas_def set_width_def set_height_def
        set_filter_def drawImage_def css_filter_def default_adjustments_def toBlob_callback_def)

lemma adjusted_session_editor:
  "image_editor adjusted_session =
     Some \<lparr>imageFile = photo1, adjustments = brighter,
      originalImage = Some (ImageElem photo1 4 3),
      canvasRef = Some \<lparr>cv_width = 4, cv_height = 3, cv_context = True, cv_filter = [],
            cv_bitmap = [Paint [Brightness 150, Contrast 100, Saturate 100] (ImageElem photo1 4 3) 0 0]\<rparr>,
      loads = [],
      exports =
        [\<lparr>exp_width = 4, exp_height = 3,
          exp_bitmap = [Paint [Brightness 100, Contrast 100, Saturate 100] (ImageElem photo1 4 3) 0 0],
          exp_type = ''image/png'', exp_name = ''image.png''\<rparr>,
         \<lparr>exp_width = 4, exp_height = 3,
          exp_bitmap = [Paint [Brightness 150, Contrast 100, Saturate 100] (ImageElem photo1 4 3) 0 0],
          exp_type = ''image/png'', exp_name = ''image.png''\<rparr>]\<rparr>"
  by (simp add: adjusted_session_def app_edit_def onImageSelect_def app_init_def
        img_onload_def mount_editor_def load_effect_def render_effect_def setAdjustments_def
        exportAdjustedImage_def applyFilters_def Let_def blank_canvas_def set_width_def set_height_def
        set_filter_def drawImage_def css_filter_def default_adjustments_def brighter_def photo1_def)

text \<open>
  C2, as stated, fails: with the brightness at 150 for the first image, selecting a
  second image leaves the triple at 150, 100, 100, which is not the default.
\<close>

theorem adjustments_survive_counterexample:
  "map_option adjustments
     (image_editor (onImageSelect photo2
        (app_edit (setAdjustments brighter)
          (app_edit (img_onload 4 3) (onImageSelect photo1 app_init))))) = Some brighter
   \<and> brighter \<noteq> default_adjustments"
  by (simp add: onImageSelect_def app_edit_def app_init_def adjustments_mount_editor
      adjustments_change_imageFile setAdjustments_def img_onload_def brighter_def
      default_adjustments_def split: list.splits option.splits)

text \<open>
  C2, amended. Selecting an image makes it the selected and the adjusted file and leaves
  the Adjustment triple as it is: the default 100, 100, 100 when that selection mounts
  the editor, and otherwise the triple of the editor before the selection. When the new
  image then loads (no older load pending, canvas with a context), it is painted under
  that retained triple, whether or not its content differs from the previous file's.
\<close>

theorem image_select_keeps_adjustments:
  "map_option adjustments (image_editor (onImageSelect f a)) =
      Some (case image_editor a of None \<Rightarrow> default_adjustments | Some ed \<Rightarrow> adjustments ed)
   \<and> selectedFile (page (onImageSelect f a)) = Some f
   \<and> adjustedFile (page (onImageSelect f a)) = Some f
   \<and> (\<forall>ed c. image_editor a = Some ed \<and> loads ed = []
          \<and> canvasRef ed = Some c \<and> cv_context c \<longrightarrow>
        map_option cv_bitmap
          (Option.bind (image_editor (app_edit (img_onload w h) (onImageSelect f a))) canvasRef)
        = Some [Paint (css_filter (adjustments ed)) (ImageElem f w h) 0 0])"
  by (auto simp: onImageSelect_def handleImageSelect_def adjustments_mount_editor
      adjustments_change_imageFile app_edit_def change_imageFile_def load_effect_def
      img_onload_def render_effect_def exportAdjustedImage_def applyFilters_bitmap Let_def
      split: option.splits)

text \<open>
  The amended C2 at the session with brightness 150: a second image is selected and
  loads at 2 by 2 pixels; it is painted with brightness 150.
\<close>

theorem image_select_keeps_adjustments_witness:
  "map_option adjustments (image_editor (onImageSelect photo2 adjusted_session)) = Some brighter
   \<and> map_option cv_bitmap
        (Option.bind (image_editor (app_edit (img_onload 2 2) (onImageSelect photo2 adjusted_session)))
           canvasRef)
      = Some [Paint [Brightness 150, Contrast 100, Saturate 100] (ImageElem photo2 2 2) 0 0]"
proof -
  let ?c = "\<lparr>cv_width = 4, cv_height = 3, cv_context = True, cv_filter = [],
            cv_bitmap = [Paint [Brightness 150, Contrast 100, Saturate 100] (ImageElem photo1 4 3) 0 0]\<rparr>"
  obtain ed where ed: "image_editor adjusted_session = Some ed" "loads ed = []"
      "canvasRef ed = Some ?c" "adjustments ed = brighter"
    by (simp add: adjusted_session_editor)
  have c: "cv_context ?c" by simp
  from image_select_keeps_adjustments [of photo2 adjusted_session 2 2]
  have a: "map_option adjustments (image_editor (onImageSelect photo2 adjusted_session)) =
      Some (case image_editor adjusted_session of
              None \<Rightarrow> default_adjustments | Some ed \<Rightarrow> adjustments ed)"
    and b: "\<forall>ed c. image_editor adjusted_session = Some ed \<and> loads ed = []
          \<and> canvasRef ed = Some c \<and> cv_context c \<longrightarrow>
        map_option cv_bitmap
          (Option.bind (image_editor (app_edit (img_onload 2 2) (onImageSelect photo2 adjusted_session)))
             canvasRef)
        = Some [Paint (css_filter (adjustments ed)) (ImageElem photo2 2 2) 0 0]"
    by blast+
  from b ed c have "map_option cv_bitmap
          (Option.bind (image_editor (app_edit (img_onload 2 2) (onImageSelect photo2 adjusted_session)))
             canvasRef)
        = Some [Paint (css_filter brighter) (ImageElem photo2 2 2) 0 0]"
    by metis
  with a ed show ?thesis
    by (simp add: css_filter_def brighter_def)
qed

text \<open>
  C7. For every loaded source image and every Adjustment triple, with the canvas mounted
  and its 2D context available: setting the triple leaves the canvas with the pixel
  dimensions of the source and exactly one painting of the source, under the filter list
  brightness, contrast, saturation in that order; it adds exactly one export request, of
  that bitmap and those dimensions as \<open>image/png\<close>; and when the browser hands over the
  blob, the file given on is that bitmap as a PNG under the name of the image file.
\<close>

theorem adjustment_stage_output:
  assumes "originalImage ed = Some img" and "canvasRef ed = Some c" and "cv_context c"
  shows "(\<exists>c'. canvasRef (setAdjustments adj ed) = Some c'
            \<and> cv_width c' = source_width img \<and> cv_height c' = source_height img
            \<and> cv_bitmap c' =
                [Paint [Brightness (brightness adj), Contrast (contrast adj), Saturate (saturation adj)]
                   img 0 0])
       \<and> exports (setAdjustments adj ed) = exports ed @
            [\<lparr>exp_width = source_width img, exp_height = source_height img,
              exp_bitmap =
                [Paint [Brightness (brightness adj), Contrast (contrast adj), Saturate (saturation adj)]
                   img 0 0],
              exp_type = ''image/png'', exp_name = file_name (imageFile ed)\<rparr>]
       \<and> (exports ed = [] \<longrightarrow>
            fst (toBlob_callback True (setAdjustments adj ed)) =
              Some (File (Bitmap (source_width img) (source_height img)
                      [Paint [Brightness (brightness adj), Contrast (contrast adj), Saturate (saturation adj)]
                         img 0 0])
                    (file_name (imageFile ed)) ''image/png''))"
  using assms
  by (simp add: setAdjustments_def render_effect_def exportAdjustedImage_def applyFilters_bitmap
      css_filter_def toBlob_callback_def)

text \<open>
  The theorem of C7 at the editor holding the loaded 4 by 3 image, with the brightness set
  to 150.
\<close>

theorem adjustment_stage_output_witness:
  "map_option cv_width (canvasRef (setAdjustments brighter loaded_editor)) = Some 4
   \<and> map_option cv_height (canvasRef (setAdjustments brighter loaded_editor)) = Some 3
   \<and> map_option cv_bitmap (canvasRef (setAdjustments brighter loaded_editor)) =
        Some [Paint [Brightness 150, Contrast 100, Saturate 100] (ImageElem photo1 4 3) 0 0]
   \<and> length (exports (setAdjustments brighter loaded_editor)) = 1
   \<and> fst (toBlob_callback True (setAdjustments brighter loaded_editor)) =
        Some (File (Bitmap 4 3 [Paint [Brightness 150, Contrast 100, Saturate 100] (ImageElem photo1 4 3) 0 0])
               ''image.png'' ''image/png'')"
proof -
  let ?c = "\<lparr>cv_width = 4, cv_height = 3, cv_context = True, cv_filter = [],
            cv_bitmap = [Paint [Brightness 100, Contrast 100, Saturate 100] (ImageElem photo1 4 3) 0 0]\<rparr>"
  have h1: "originalImage loaded_editor = Some (ImageElem photo1 4 3)"
    by (simp add: loaded_editor_eq)
  have h2: "canvasRef loaded_editor = Some ?c"
    by (simp add: loaded_editor_eq)
  have h3: "cv_context ?c"
    by simp
  have h4: "exports loaded_editor = []" "file_name (imageFile loaded_editor) = ''image.png''"
    by (simp_all add: loaded_editor_eq photo1_def)
  show ?thesis
    using adjustment_stage_output [OF h1 h2 h3, of brighter] h4
    by (auto simp: brighter_def)
qed


section \<open>Properties of the uploader\<close>

text \<open>
  A start made while \<open>isWebcamActive\<close> is false stops nothing: every stream that was
  running still runs, and one more.
\<close>

lemma startWebcam_overwrites:
  "\<not> isWebcamActive u \<Longrightarrow> supported e \<Longrightarrow> getUserMedia_error e = None \<Longrightarrow>
     set (live_streams u) \<subseteq> set (live_streams (startWebcam e u))
     \<and> length (live_streams (startWebcam e u)) = Suc (length (live_streams u))"
  by (auto simp: startWebcam_def rerender_def Let_def split: option.splits)

text \<open>
  The flag is set only where the video element is found mounted, and the element is mounted
  only while the flag is set: no start of the webcam sets the flag.
\<close>

lemma startWebcam_never_activates: "\<not> isWebcamActive u \<Longrightarrow> \<not> isWebcamActive (startWebcam e u)"
  by (simp add: startWebcam_def rerender_def add_toast_def Let_def split: option.splits)

text \<open>
  C8. At most one camera stream is to be active. From the initial state, two starts of
  the webcam, both granted by the browser, leave two streams running; the ref holds the
  second only, so that a later \<open>stopWebcam\<close> stops that one and stream 0 keeps running.
\<close>

theorem second_start_leaks_stream:
  "map stream_id (live_streams (startWebcam camera_grants (startWebcam camera_grants uploader_init)))
     = [0, 1]
   \<and> map_option stream_id
       (streamRef (startWebcam camera_grants (startWebcam camera_grants uploader_init))) = Some 1
   \<and> map stream_id
       (live_streams (stopWebcam (startWebcam camera_grants (startWebcam camera_grants uploader_init))))
     = [0]"
  by (simp add: startWebcam_def camera_grants_def uploader_init_def rerender_def Let_def stopWebcam_def)

subsection \<open>Captures and deletion\<close>

text \<open>Without a mounted video element a capture does nothing.\<close>

lemma capturePhoto_unmounted: "videoRef u = None \<Longrightarrow> capturePhoto e u = u"
  by (simp add: capturePhoto_def)

text \<open>No start of the webcam mounts the video element.\<close>

lemma startWebcam_unmounted:
  "\<not> isWebcamActive u \<Longrightarrow> videoRef u = None \<Longrightarrow> videoRef (startWebcam e u) = None"
  by (simp add: startWebcam_def rerender_def add_toast_def Let_def split: option.splits)

text \<open>
  From the initial state, whatever the browser answers to any number of starts, stops,
  captures and deletions, the flag stays unset, the video element unmounted and the list
  of captures empty.
\<close>

lemma uploader_steps_inert:
  assumes "\<not> isWebcamActive u \<and> videoRef u = None \<and> capturedImages u = []"
  shows "\<not> isWebcamActive (startWebcam we u) \<and> videoRef (startWebcam we u) = None
            \<and> capturedImages (startWebcam we u) = []"
    and "\<not> isWebcamActive (stopWebcam u) \<and> videoRef (stopWebcam u) = None
            \<and> capturedImages (stopWebcam u) = []"
    and "\<not> isWebcamActive (capturePhoto ce u) \<and> videoRef (capturePhoto ce u) = None
            \<and> capturedImages (capturePhoto ce u) = []"
    and "\<not> isWebcamActive (deleteImage i u) \<and> videoRef (deleteImage i u) = None
            \<and> capturedImages (deleteImage i u) = []"
  using assms
  by (simp_all add: startWebcam_def stopWebcam_def rerender_def add_toast_def Let_def
      capturePhoto_def deleteImage_def split: option.splits)

text \<open>
  Deleting the selected entry removes the entries with its id and clears the uploader's
  selection and preview.
\<close>

lemma deleteImage_selected:
  "selectedImageId u = Some i \<Longrightarrow>
     selectedImageId (deleteImage i u) = None \<and> preview (deleteImage i u) = None
     \<and> i \<notin> ci_id ` set (capturedImages (deleteImage i u))"
  by (auto simp: deleteImage_def Let_def)

text \<open>
  C9. Three captures are to produce exactly three entries. From the initial state, with
  the webcam started and a stream granted, three captures for which the browser would
  provide a context, a blob and the distinct times 5, 6 and 7 leave the list of captures
  empty: the video element is not mounted, so each capture returns at its first test.
\<close>

theorem captures_add_nothing:
  "videoRef (startWebcam camera_grants uploader_init) = None
   \<and> capturedImages
       (capturePhoto (shot 7) (capturePhoto (shot 6) (capturePhoto (shot 5)
          (startWebcam camera_grants uploader_init)))) = []
   \<and> live_streams (startWebcam camera_grants uploader_init) \<noteq> []"
  by (simp add: startWebcam_def camera_grants_def uploader_init_def rerender_def Let_def
      capturePhoto_def)

end
